theory Spec2Isabelle
  imports Main "HOL-Library.Word"
begin

unbundle bit_operations_syntax

section \<open>Machine types and host objects\<close>

text \<open>
  The shims are C functions of the 32-bit Windows and POSIX ABIs. \<open>int\<close>, \<open>long\<close>
  (Windows), \<open>DWORD\<close> and \<open>BOOL\<close> are 32-bit words; \<open>unsigned short\<close> is a 16-bit
  word. A signed reading of a word is \<open>sint\<close>, an unsigned one \<open>uint\<close>.
\<close>

type_synonym c_int = "32 word"
type_synonym c_long = "32 word"
type_synonym DWORD = "32 word"
type_synonym BOOL = "32 word"
type_synonym c_ushort = "16 word"

text \<open>
  Objects of the host interpreter, as far as the shims build or receive them. A
  float object carries the 64 bits of its C \<open>double\<close>. A function of the method
  table returns \<open>PyObject *\<close>: \<open>Some obj\<close> for an object, \<open>None\<close> for the
  \<open>NULL\<close> that signals an error to the caller.
\<close>

datatype py_object =
    PyInt int
  | PyFloat "64 word"
  | PyStr string
  | PyNone
  | PyTuple "py_object list"

text \<open>\<open>Py_BuildValue("i", x)\<close>: the integer object of the C \<open>int\<close> \<open>x\<close>.\<close>

definition Py_BuildValue_i :: "c_int \<Rightarrow> py_object" where
  "Py_BuildValue_i x = PyInt (sint x)"

text \<open>
  \<open>Py_BuildValue("f", ...)\<close> fetches a C \<open>double\<close> (eight bytes) from the variadic
  arguments and builds the float object of it.
\<close>

definition Py_BuildValue_f :: "64 word \<Rightarrow> py_object" where
  "Py_BuildValue_f d = PyFloat d"

section \<open>The outside: vendor library, operating system, interpreter\<close>

text \<open>
  Every function of the sources forwards to one call of a library that is not part
  of the repository. The model records each such call, with the arguments it was
  given, in a trace (oldest call first), and takes the value the call returns from
  the outside: a function of the calls made so far and of the arguments, so that a
  library with hidden state of its own (a device that is already open, a process
  whose priority was changed) is covered.
\<close>

datatype handle = Pseudo_process | Pseudo_thread

record sched_param =
  sched_priority :: c_int

record DEVMODE =
  dmDriverExtra :: c_ushort
  dmDisplayFrequency :: DWORD

datatype ext_call =
    Call_bitsInit string
  | Call_bitsSetVideoMode DWORD
  | Call_SetPriorityClass handle DWORD
  | Call_SetThreadPriority handle c_int
  | Call_EnumDisplaySettings "string option" DWORD c_ushort
  | Call_sched_setscheduler c_int c_int sched_param
  | Call_mlockall c_int

type_synonym trace = "ext_call list"

text \<open>The vendor's Bits++ library (\<open>bits.h\<close>): both calls return a \<open>long\<close>.\<close>

record bits_lib =
  bitsInit :: "trace \<Rightarrow> string \<Rightarrow> c_long"
  bitsSetVideoMode :: "trace \<Rightarrow> DWORD \<Rightarrow> c_long"

text \<open>
  The Win32 calls. \<open>EnumDisplaySettings\<close> gets the device name (\<open>NULL\<close> is
  \<open>None\<close>), the mode number and the one field of the \<open>DEVMODE\<close> the caller has
  set, and returns its \<open>BOOL\<close> with the \<open>DEVMODE\<close> it has filled in.
\<close>

record win32_api =
  SetPriorityClass :: "trace \<Rightarrow> handle \<Rightarrow> DWORD \<Rightarrow> BOOL"
  SetThreadPriority :: "trace \<Rightarrow> handle \<Rightarrow> c_int \<Rightarrow> BOOL"
  EnumDisplaySettings :: "trace \<Rightarrow> string option \<Rightarrow> DWORD \<Rightarrow> c_ushort \<Rightarrow> BOOL \<times> DEVMODE"

record posix_api =
  sched_setscheduler :: "trace \<Rightarrow> c_int \<Rightarrow> c_int \<Rightarrow> sched_param \<Rightarrow> c_int"
  mlockall :: "trace \<Rightarrow> c_int \<Rightarrow> c_int"

text \<open>
  \<open>PyArg_ParseTuple(args, "i", &x)\<close> of the interpreter: \<open>Some x\<close> when the
  argument tuple parses as one C \<open>int\<close>, \<open>None\<close> when it does not.
\<close>

record python_api =
  PyArg_ParseTuple_i :: "py_object \<Rightarrow> c_int option"

text \<open>
  What \<open>sys/mman.h\<close> of the platform defines: each of the two macros is either
  defined, with its value, or not defined.
\<close>

record platform =
  MCL_CURRENT :: "c_int option"
  MCL_FUTURE :: "c_int option"

text \<open>
  \<open>GetCurrentProcess()\<close> and \<open>GetCurrentThread()\<close> return the pseudo handle of
  the calling process and of the calling thread; \<open>ENUM_CURRENT_SETTINGS\<close> is
  \<open>(DWORD)-1\<close>.
\<close>

definition GetCurrentProcess :: handle where
  "GetCurrentProcess = Pseudo_process"

definition GetCurrentThread :: handle where
  "GetCurrentThread = Pseudo_thread"

definition ENUM_CURRENT_SETTINGS :: DWORD where
  "ENUM_CURRENT_SETTINGS = - 1"

text \<open>Constants of \<open>bits.h\<close>.\<close>

definition E_ALREADYOPEN :: c_long where
  "E_ALREADYOPEN = - 10"

definition bitsGAMMACORRECT :: DWORD where
  "bitsGAMMACORRECT = 0x00008000"

section \<open>The Bits++ shim (\<open>_bits.c\<close>)\<close>

text \<open>
  \<open>bits_init\<close> does not look at its arguments: it calls \<open>bitsInit("")\<close> and
  returns \<open>NULL\<close> when the status is negative, the integer object 1 otherwise.
\<close>

definition bits_init :: "bits_lib \<Rightarrow> py_object \<Rightarrow> trace \<Rightarrow> py_object option \<times> trace" where
  "bits_init V args tr =
     (let st = bitsInit V tr '''';
          tr' = tr @ [Call_bitsInit '''']
      in if sint st < 0 then (None, tr')
         else (Some (Py_BuildValue_i 1), tr'))"

text \<open>
  \<open>bits_setVideoMode\<close> parses one \<open>int\<close> from the argument tuple into
  \<open>videoMode\<close> and returns \<open>NULL\<close> when that fails, before any call of the
  vendor. Otherwise it passes the 32 bits of \<open>videoMode\<close> as the \<open>DWORD\<close> of
  \<open>bitsSetVideoMode\<close> and returns \<open>NULL\<close> when the status is not zero, the
  integer object 1 when it is. (The source declares \<open>videoMode\<close> as a
  \<open>PyObject *\<close>; on the 32-bit Windows of the vendor's \<open>__stdcall\<close> library a
  pointer is the four bytes the format \<open>i\<close> writes, and its conversion to
  \<open>DWORD\<close> keeps them.)
\<close>

definition bits_setVideoMode ::
  "python_api \<Rightarrow> bits_lib \<Rightarrow> py_object \<Rightarrow> trace \<Rightarrow> py_object option \<times> trace" where
  "bits_setVideoMode P V args tr =
     (case PyArg_ParseTuple_i P args of
        None \<Rightarrow> (None, tr)
      | Some videoMode \<Rightarrow>
          (let st = bitsSetVideoMode V tr videoMode;
               tr' = tr @ [Call_bitsSetVideoMode videoMode]
           in if st \<noteq> 0 then (None, tr')
              else (Some (Py_BuildValue_i 1), tr')))"

section \<open>The Windows shim (\<open>_win32.c\<close>, and its copy \<open>posix.c\<close>)\<close>

text \<open>
  \<open>win32_setProcessPriority\<close> and \<open>win32_setThreadPriority\<close> stand with the same
  text in both files. Each takes a C \<open>int\<close>, casts the \<open>BOOL\<close> of the OS call to
  \<open>unsigned short\<close>, and builds the integer object of that \<open>unsigned short\<close>
  (promoted to \<open>int\<close> on its way into \<open>Py_BuildValue\<close>).
\<close>

definition win32_setProcessPriority ::
  "win32_api \<Rightarrow> c_int \<Rightarrow> trace \<Rightarrow> py_object option \<times> trace" where
  "win32_setProcessPriority W priority_class tr =
     (let retval = (ucast (SetPriorityClass W tr GetCurrentProcess priority_class) :: c_ushort)
      in (Some (Py_BuildValue_i (ucast retval)),
          tr @ [Call_SetPriorityClass GetCurrentProcess priority_class]))"

definition win32_setThreadPriority ::
  "win32_api \<Rightarrow> c_int \<Rightarrow> trace \<Rightarrow> py_object option \<times> trace" where
  "win32_setThreadPriority W priority tr =
     (let retval = (ucast (SetThreadPriority W tr GetCurrentThread priority) :: c_ushort)
      in (Some (Py_BuildValue_i (ucast retval)),
          tr @ [Call_SetThreadPriority GetCurrentThread priority]))"

text \<open>
  Both files enter the two functions in their method table as \<open>METH_VARARGS\<close>,
  and the functions are \<open>static\<close>: the table is the only way to them. The
  interpreter calls such an entry with two pointers, \<open>self\<close> and the argument
  tuple, and \<open>self\<close> is \<open>NULL\<close> for a function of a module made by
  \<open>Py_InitModule\<close>. The functions are declared with one \<open>int\<close> parameter and
  parse no tuple: called through the table, the parameter holds \<open>self\<close> read as
  an \<open>int\<close>, which is 0, and the tuple of the host is never read.
\<close>

definition module_self :: c_int where
  "module_self = 0"

definition setProcessPriority ::
  "win32_api \<Rightarrow> py_object \<Rightarrow> trace \<Rightarrow> py_object option \<times> trace" where
  "setProcessPriority W args tr = win32_setProcessPriority W module_self tr"

definition setThreadPriority ::
  "win32_api \<Rightarrow> py_object \<Rightarrow> trace \<Rightarrow> py_object option \<times> trace" where
  "setThreadPriority W args tr = win32_setThreadPriority W module_self tr"

text \<open>
  \<open>win32_getRefresh\<close> (only in \<open>posix.c\<close>) sets \<open>dmDriverExtra\<close> to 0, asks
  \<open>EnumDisplaySettings\<close> for the current settings of the default device and
  returns \<open>NULL\<close> when that reports 0. Otherwise it hands the \<open>DWORD\<close>
  \<open>dmDisplayFrequency\<close> to \<open>Py_BuildValue("f", ...)\<close>. A \<open>DWORD\<close> among variadic
  arguments stays a 32-bit integer (C converts no integer to \<open>double\<close> there), and
  the format \<open>f\<close> fetches the eight bytes of a \<open>double\<close> at its place: on the
  little-endian x86 the \<open>DWORD\<close> is the low half of what is fetched, and the high
  half \<open>beyond\<close> is whatever lies next in the argument area, which no statement
  of the function has written.
\<close>

definition win32_getRefresh ::
  "win32_api \<Rightarrow> 32 word \<Rightarrow> trace \<Rightarrow> py_object option \<times> trace" where
  "win32_getRefresh W beyond tr =
     (let (ok, DevMode) = EnumDisplaySettings W tr None ENUM_CURRENT_SETTINGS 0;
          tr' = tr @ [Call_EnumDisplaySettings None ENUM_CURRENT_SETTINGS 0]
      in if ok \<noteq> 0
         then (Some (Py_BuildValue_f (word_cat beyond (dmDisplayFrequency DevMode))), tr')
         else (None, tr'))"

section \<open>The POSIX shim (\<open>posix_maxpriority.c\<close>)\<close>

definition set_self_policy_priority ::
  "posix_api \<Rightarrow> c_int \<Rightarrow> c_int \<Rightarrow> trace \<Rightarrow> c_int \<times> trace" where
  "set_self_policy_priority X policy priority tr =
     (let params = \<lparr>sched_priority = priority\<rparr>
      in (sched_setscheduler X tr 0 policy params,
          tr @ [Call_sched_setscheduler 0 policy params]))"

text \<open>
  The body of \<open>stop_memory_paging\<close> is chosen by the preprocessor: the call of
  \<open>mlockall\<close> when both macros are defined, \<open>return 0\<close> otherwise.
\<close>

definition stop_memory_paging ::
  "platform \<Rightarrow> posix_api \<Rightarrow> trace \<Rightarrow> c_int \<times> trace" where
  "stop_memory_paging M X tr =
     (case (MCL_CURRENT M, MCL_FUTURE M) of
        (Some cur, Some fut) \<Rightarrow>
          (mlockall X tr (cur OR fut), tr @ [Call_mlockall (cur OR fut)])
      | _ \<Rightarrow> (0, tr))"

section \<open>Sequences of calls from the host\<close>

text \<open>
  The operations the three shims offer, each with the arguments of one call, and
  what one call gives back: an object or \<open>NULL\<close> for the functions of a method
  table, an \<open>int\<close> for the two C functions of the POSIX shim. A function of a
  method table gets the argument tuple of the host; \<open>getRefresh\<close> carries the
  word \<open>beyond\<close> of its variadic fetch.
\<close>

datatype exposed =
    Op_init py_object
  | Op_setVideoMode py_object
  | Op_setProcessPriority py_object
  | Op_setThreadPriority py_object
  | Op_getRefresh "32 word"
  | Op_set_self_policy_priority c_int c_int
  | Op_stop_memory_paging

datatype outcome = Returned_object "py_object option" | Returned_int c_int

record outside =
  python :: python_api
  vendor :: bits_lib
  windows :: win32_api
  posix :: posix_api
  mman :: platform

text \<open>
  The sources declare no writable object at file scope and no \<open>static\<close> local:
  the method tables are the only file-scope objects and no function assigns to
  them. So nothing but the trace of outside calls is carried from one call to the
  next.
\<close>

fun call :: "outside \<Rightarrow> exposed \<Rightarrow> trace \<Rightarrow> outcome \<times> trace" where
  "call E (Op_init args) tr = apfst Returned_object (bits_init (vendor E) args tr)"
| "call E (Op_setVideoMode args) tr =
     apfst Returned_object (bits_setVideoMode (python E) (vendor E) args tr)"
| "call E (Op_setProcessPriority args) tr =
     apfst Returned_object (setProcessPriority (windows E) args tr)"
| "call E (Op_setThreadPriority args) tr =
     apfst Returned_object (setThreadPriority (windows E) args tr)"
| "call E (Op_getRefresh beyond) tr =
     apfst Returned_object (win32_getRefresh (windows E) beyond tr)"
| "call E (Op_set_self_policy_priority policy priority) tr =
     apfst Returned_int (set_self_policy_priority (posix E) policy priority tr)"
| "call E Op_stop_memory_paging tr =
     apfst Returned_int (stop_memory_paging (mman E) (posix E) tr)"

fun run :: "outside \<Rightarrow> exposed list \<Rightarrow> trace \<Rightarrow> outcome list \<times> trace" where
  "run E [] tr = ([], tr)"
| "run E (op # ops) tr =
     (let (r, tr') = call E op tr;
          (rs, tr'') = run E ops tr'
      in (r # rs, tr''))"

text \<open>
  The outside \<open>E\<close> after the calls \<open>tr\<close> answers every call as the outside \<open>E'\<close>
  does after the calls \<open>tr'\<close>.
\<close>

definition same_answers :: "outside \<Rightarrow> trace \<Rightarrow> outside \<Rightarrow> trace \<Rightarrow> bool" where
  "same_answers E tr E' tr' \<longleftrightarrow>
     python E = python E' \<and> mman E = mman E' \<and>
     bitsInit (vendor E) tr = bitsInit (vendor E') tr' \<and>
     bitsSetVideoMode (vendor E) tr = bitsSetVideoMode (vendor E') tr' \<and>
     SetPriorityClass (windows E) tr = SetPriorityClass (windows E') tr' \<and>
     SetThreadPriority (windows E) tr = SetThreadPriority (windows E') tr' \<and>
     EnumDisplaySettings (windows E) tr = EnumDisplaySettings (windows E') tr' \<and>
     sched_setscheduler (posix E) tr = sched_setscheduler (posix E') tr' \<and>
     mlockall (posix E) tr = mlockall (posix E') tr'"

section \<open>Concrete outsides\<close>

text \<open>
  An interpreter whose parser accepts a tuple of one integer object that fits a C
  \<open>int\<close>, and nothing else.
\<close>

fun host_parse_i :: "py_object \<Rightarrow> c_int option" where
  "host_parse_i (PyTuple [PyInt v]) =
     (if - (2 ^ 31) \<le> v \<and> v < 2 ^ 31 then Some (word_of_int v) else None)"
| "host_parse_i _ = None"

definition python_host :: python_api where
  "python_host = \<lparr>PyArg_ParseTuple_i = host_parse_i\<rparr>"

text \<open>A vendor library that answers every call with a fixed status.\<close>

definition vendor_replying :: "c_long \<Rightarrow> c_long \<Rightarrow> bits_lib" where
  "vendor_replying i m = \<lparr>bitsInit = (\<lambda>tr name. i), bitsSetVideoMode = (\<lambda>tr flags. m)\<rparr>"

text \<open>
  A vendor library that opens its device once: a \<open>bitsInit\<close> after an earlier
  one reports \<open>E_ALREADYOPEN\<close>.
\<close>

definition vendor_opening_once :: bits_lib where
  "vendor_opening_once =
     \<lparr>bitsInit = (\<lambda>tr name. if Call_bitsInit '''' \<in> set tr then E_ALREADYOPEN else 0),
      bitsSetVideoMode = (\<lambda>tr flags. 0)\<rparr>"

definition windows_replying :: "BOOL \<Rightarrow> BOOL \<Rightarrow> BOOL \<times> DEVMODE \<Rightarrow> win32_api" where
  "windows_replying c t e =
     \<lparr>SetPriorityClass = (\<lambda>tr h x. c), SetThreadPriority = (\<lambda>tr h x. t),
      EnumDisplaySettings = (\<lambda>tr dev mode extra. e)\<rparr>"

definition posix_replying :: "c_int \<Rightarrow> c_int \<Rightarrow> posix_api" where
  "posix_replying s m =
     \<lparr>sched_setscheduler = (\<lambda>tr pid policy params. s), mlockall = (\<lambda>tr flags. m)\<rparr>"

text \<open>A platform with both macros (the values of Linux), and one with neither.\<close>

definition mman_linux :: platform where
  "mman_linux = \<lparr>MCL_CURRENT = Some 1, MCL_FUTURE = Some 2\<rparr>"

definition mman_without :: platform where
  "mman_without = \<lparr>MCL_CURRENT = None, MCL_FUTURE = None\<rparr>"

definition quiet_outside :: outside where
  "quiet_outside =
     \<lparr>python = python_host, vendor = vendor_opening_once,
      windows = windows_replying 1 1 (1, \<lparr>dmDriverExtra = 0, dmDisplayFrequency = 60\<rparr>),
      posix = posix_replying 0 0, mman = mman_linux\<rparr>"

section \<open>The encoding of a number as a C double\<close>

text \<open>
  The IEEE 754 binary64 encoding of a natural number below \<open>2 ^ 53\<close>: sign 0, the
  exponent \<open>e\<close> of the leading bit biased by 1023 in bits 52 to 62, the rest of
  the number as the fraction in bits 0 to 51. It is what the conversion
  \<open>(double)n\<close> of C yields.
\<close>

fun bit_length :: "nat \<Rightarrow> nat" where
  "bit_length n = (if n = 0 then 0 else Suc (bit_length (n div 2)))"

declare bit_length.simps [simp del]

definition binary64_of_nat :: "nat \<Rightarrow> 64 word" where
  "binary64_of_nat n =
     (if n = 0 then 0
      else let e = bit_length n - 1
           in of_nat ((1023 + e) * 2 ^ 52 + (n - 2 ^ e) * 2 ^ (52 - e)))"

section \<open>Helper facts\<close>

lemma ushort_of_BOOL: "uint (ucast (r :: BOOL) :: c_ushort) = sint r mod 65536"
proof -
  have "uint (ucast r :: c_ushort) = take_bit 16 (uint r)"
    by (simp add: unsigned_ucast_eq)
  also have "\<dots> = take_bit 16 (sint r)"
    by (simp add: sint_uint take_bit_signed_take_bit)
  also have "\<dots> = sint r mod 65536"
    by (simp add: take_bit_eq_mod)
  finally show ?thesis .
qed

lemma int_of_ushort: "sint (ucast (x :: c_ushort) :: c_int) = uint x"
proof -
  have b: "uint x < 2 ^ 16" using uint_lt2p [of x] by simp
  have "uint (ucast x :: c_int) = take_bit 32 (uint x)"
    by (simp add: unsigned_ucast_eq)
  also have "\<dots> = uint x" using b by (simp add: take_bit_int_eq_self)
  finally have u: "uint (ucast x :: c_int) = uint x" .
  have "sint (ucast x :: c_int) = signed_take_bit 31 (uint x)"
    by (simp add: sint_uint u)
  also have "\<dots> = uint x"
  proof (rule signed_take_bit_int_eq_self)
    have "- (2 ^ 31) \<le> (0::int)" by simp
    also have "0 \<le> uint x" by simp
    finally show "- (2 ^ 31) \<le> uint x" .
    show "uint x < 2 ^ 31" using b by simp
  qed
  finally show ?thesis .
qed

lemma built_of_BOOL:
  "Py_BuildValue_i (ucast (ucast (r :: BOOL) :: c_ushort)) = PyInt (sint r mod 65536)"
  by (simp add: Py_BuildValue_i_def int_of_ushort ushort_of_BOOL)


lemma win32_setProcessPriority_eq:
  "win32_setProcessPriority W c tr =
     (Some (PyInt (sint (SetPriorityClass W tr GetCurrentProcess c) mod 65536)),
      tr @ [Call_SetPriorityClass GetCurrentProcess c])"
  by (simp add: win32_setProcessPriority_def Let_def built_of_BOOL)

lemma win32_setThreadPriority_eq:
  "win32_setThreadPriority W p tr =
     (Some (PyInt (sint (SetThreadPriority W tr GetCurrentThread p) mod 65536)),
      tr @ [Call_SetThreadPriority GetCurrentThread p])"
  by (simp add: win32_setThreadPriority_def Let_def built_of_BOOL)

lemma bits_init_eq:
  "bits_init V args tr =
     (if sint (bitsInit V tr '''') < 0 then None else Some (PyInt 1),
      tr @ [Call_bitsInit ''''])"
  by (simp add: bits_init_def Let_def Py_BuildValue_i_def)

lemma bits_setVideoMode_parsed:
  "PyArg_ParseTuple_i P args = Some videoMode \<Longrightarrow>
   bits_setVideoMode P V args tr =
     (if bitsSetVideoMode V tr videoMode = 0 then Some (PyInt 1) else None,
      tr @ [Call_bitsSetVideoMode videoMode])"
  by (simp add: bits_setVideoMode_def Let_def Py_BuildValue_i_def)

lemma bits_setVideoMode_unparsed:
  "PyArg_ParseTuple_i P args = None \<Longrightarrow> bits_setVideoMode P V args tr = (None, tr)"
  by (simp add: bits_setVideoMode_def)

section \<open>The Windows priority functions\<close>

lemma setProcessPriority_eq:
  "setProcessPriority W args tr =
     (Some (PyInt (sint (SetPriorityClass W tr GetCurrentProcess module_self) mod 65536)),
      tr @ [Call_SetPriorityClass GetCurrentProcess module_self])"
  by (simp add: setProcessPriority_def win32_setProcessPriority_eq)

lemma setThreadPriority_eq:
  "setThreadPriority W args tr =
     (Some (PyInt (sint (SetThreadPriority W tr GetCurrentThread module_self) mod 65536)),
      tr @ [Call_SetThreadPriority GetCurrentThread module_self])"
  by (simp add: setThreadPriority_def win32_setThreadPriority_eq)



text \<open>
  The other part of the specification's sentence, that the priority value of the
  host reaches the OS call unchanged, does not hold of the functions as the method
  tables call them: whatever tuple the host passes, the OS call is made with 0.
  The sibling \<open>bits_setVideoMode\<close> parses its tuple; these two functions do not.
\<close>

lemma priority_of_host_never_reaches_OS:
  "snd (setProcessPriority W args tr) = tr @ [Call_SetPriorityClass GetCurrentProcess 0] \<and>
   snd (setThreadPriority W args tr) = tr @ [Call_SetThreadPriority GetCurrentThread 0] \<and>
   setProcessPriority W (PyTuple [PyInt 128]) tr = setProcessPriority W (PyTuple [PyInt 32]) tr \<and>
   setThreadPriority W (PyTuple [PyInt 15]) tr = setThreadPriority W (PyTuple [PyInt 0]) tr"
  by (simp add: setProcessPriority_eq setThreadPriority_eq module_self_def)

text \<open>
  Claim C9. Whatever the OS call reports, the integer that
  \<open>win32_setProcessPriority\<close> and \<open>win32_setThreadPriority\<close> return is that result
  modulo \<open>2 ^ 16\<close>, and so lies between 0 and 65535.
\<close>

theorem priority_result_in_ushort_range:
  "\<exists>a b. fst (win32_setProcessPriority W c tr) = Some (PyInt a) \<and>
         a = sint (SetPriorityClass W tr GetCurrentProcess c) mod 2 ^ 16 \<and>
         0 \<le> a \<and> a \<le> 65535 \<and>
         fst (win32_setThreadPriority W p tr) = Some (PyInt b) \<and>
         b = sint (SetThreadPriority W tr GetCurrentThread p) mod 2 ^ 16 \<and>
         0 \<le> b \<and> b \<le> 65535"
proof -
  let ?a = "sint (SetPriorityClass W tr GetCurrentProcess c) mod 65536"
  let ?b = "sint (SetThreadPriority W tr GetCurrentThread p) mod 65536"
  have "?a < 65536" "?b < 65536" by simp_all
  then have "?a \<le> 65535" "?b \<le> 65535" by simp_all
  then show ?thesis
    by (simp add: win32_setProcessPriority_eq win32_setThreadPriority_eq)
qed

section \<open>The Bits++ functions\<close>

text \<open>
  Claim C3. \<open>bits_init\<close> makes one vendor call, \<open>bitsInit\<close> with the empty
  string. It returns \<open>NULL\<close> exactly when the status of that call is negative,
  whichever negative code it is, and the integer object 1 exactly when the status
  is not negative.
\<close>

theorem bits_init_fails_iff_negative_status:
  "snd (bits_init V args tr) = tr @ [Call_bitsInit ''''] \<and>
   (fst (bits_init V args tr) = None \<longleftrightarrow> sint (bitsInit V tr '''') < 0) \<and>
   (fst (bits_init V args tr) = Some (PyInt 1) \<longleftrightarrow> 0 \<le> sint (bitsInit V tr ''''))"
  by (simp add: bits_init_eq not_less)

text \<open>
  Claim C2. When the argument tuple parses as the \<open>int\<close> \<open>videoMode\<close>,
  \<open>bits_setVideoMode\<close> makes one vendor call, \<open>bitsSetVideoMode\<close> with exactly
  that word, and it returns the integer object 1 if and only if the vendor call
  returns zero, \<open>NULL\<close> if and only if it returns nonzero.
\<close>

theorem setVideoMode_forwards_mask_unmodified:
  assumes "PyArg_ParseTuple_i P args = Some videoMode"
  shows "snd (bits_setVideoMode P V args tr) = tr @ [Call_bitsSetVideoMode videoMode] \<and>
         (fst (bits_setVideoMode P V args tr) = Some (PyInt 1) \<longleftrightarrow>
            bitsSetVideoMode V tr videoMode = 0) \<and>
         (fst (bits_setVideoMode P V args tr) = None \<longleftrightarrow>
            bitsSetVideoMode V tr videoMode \<noteq> 0)"
  by (simp add: bits_setVideoMode_parsed [OF assms])

text \<open>
  The theorem of C2 at the mask \<open>bits8BITPALETTEMODE | bitsVIDEOENCODEDCOMMS\<close>,
  with a vendor that returns 0 and with one that returns \<open>E_INTERNALERROR\<close>.
\<close>

theorem setVideoMode_forwards_mask_unmodified_witness:
  "PyArg_ParseTuple_i python_host (PyTuple [PyInt 0x00080001]) = Some 0x00080001 \<and>
   snd (bits_setVideoMode python_host (vendor_replying 0 0) (PyTuple [PyInt 0x00080001]) [])
     = [Call_bitsSetVideoMode 0x00080001] \<and>
   fst (bits_setVideoMode python_host (vendor_replying 0 0) (PyTuple [PyInt 0x00080001]) [])
     = Some (PyInt 1) \<and>
   fst (bits_setVideoMode python_host (vendor_replying 0 (- 9)) (PyTuple [PyInt 0x00080001]) [])
     = None"
proof -
  have p: "PyArg_ParseTuple_i python_host (PyTuple [PyInt 0x00080001]) = Some 0x00080001"
    by (simp add: python_host_def)
  show ?thesis
    using p setVideoMode_forwards_mask_unmodified [OF p, of "vendor_replying 0 0" "[]"]
      setVideoMode_forwards_mask_unmodified [OF p, of "vendor_replying 0 (- 9)" "[]"]
    by (simp add: vendor_replying_def)
qed

text \<open>
  Claim C10. When the argument tuple does not parse as one \<open>int\<close>,
  \<open>bits_setVideoMode\<close> returns \<open>NULL\<close> and the trace is as it was: no vendor call
  was made.
\<close>

theorem setVideoMode_parse_failure_makes_no_call:
  "PyArg_ParseTuple_i P args = None \<Longrightarrow> bits_setVideoMode P V args tr = (None, tr)"
  by (rule bits_setVideoMode_unparsed)

text \<open>The theorem of C10 at a tuple of one string and at a tuple of two integers.\<close>

theorem setVideoMode_parse_failure_makes_no_call_witness:
  "PyArg_ParseTuple_i python_host (PyTuple [PyStr ''gamma'']) = None \<and>
   bits_setVideoMode python_host (vendor_replying 0 0) (PyTuple [PyStr ''gamma''])
     [Call_bitsInit ''''] = (None, [Call_bitsInit '''']) \<and>
   PyArg_ParseTuple_i python_host (PyTuple [PyInt 1, PyInt 2]) = None \<and>
   bits_setVideoMode python_host (vendor_replying 0 0) (PyTuple [PyInt 1, PyInt 2]) [] = (None, [])"
proof -
  have p: "PyArg_ParseTuple_i python_host (PyTuple [PyStr ''gamma'']) = None"
    by (simp add: python_host_def)
  have q: "PyArg_ParseTuple_i python_host (PyTuple [PyInt 1, PyInt 2]) = None"
    by (simp add: python_host_def)
  show ?thesis
    using p q
      setVideoMode_parse_failure_makes_no_call [OF p, of "vendor_replying 0 0" "[Call_bitsInit '''']"]
      setVideoMode_parse_failure_makes_no_call [OF q, of "vendor_replying 0 0" "[]"]
    by simp
qed

text \<open>
  Claim C6 as the specification words it fails. The device is initialised
  (\<open>bits_init\<close> has returned 1) and the vendor's \<open>bitsSetVideoMode\<close> returns 1,
  which is true in C; \<open>bits_setVideoMode\<close> with the flag \<open>0x00008000\<close> makes the
  call and returns \<open>NULL\<close>.
\<close>

theorem gamma_mode_fails_when_vendor_returns_true:
  "fst (bits_init (vendor_replying 0 1) (PyTuple []) []) = Some (PyInt 1) \<and>
   bitsSetVideoMode (vendor_replying 0 1)
     (snd (bits_init (vendor_replying 0 1) (PyTuple []) [])) 0x00008000 = 1 \<and>
   bits_setVideoMode python_host (vendor_replying 0 1) (PyTuple [PyInt 0x00008000])
     (snd (bits_init (vendor_replying 0 1) (PyTuple []) []))
     = (None, [Call_bitsInit '''', Call_bitsSetVideoMode 0x00008000])"
  by (simp add: bits_init_eq bits_setVideoMode_def python_host_def vendor_replying_def)

text \<open>
  Claim C6, as the sources have it. After a \<open>bits_init\<close> that has returned 1,
  when the argument parses as \<open>bitsGAMMACORRECT\<close> and the vendor's
  \<open>bitsSetVideoMode\<close> returns zero for it, \<open>bits_setVideoMode\<close> returns the
  integer object 1, and the vendor has been called with \<open>0x00008000\<close>.
\<close>

theorem gamma_mode_succeeds_when_vendor_returns_zero:
  assumes "fst (bits_init V a tr0) = Some (PyInt 1)"
      and "tr = snd (bits_init V a tr0)"
      and "PyArg_ParseTuple_i P args = Some bitsGAMMACORRECT"
      and "bitsSetVideoMode V tr bitsGAMMACORRECT = 0"
  shows "bits_setVideoMode P V args tr =
           (Some (PyInt 1), tr0 @ [Call_bitsInit '''', Call_bitsSetVideoMode 0x00008000])"
  using assms(2,4)
  by (simp add: bits_setVideoMode_parsed [OF assms(3)] bits_init_eq bitsGAMMACORRECT_def)

text \<open>
  The amended C6 with the vendor that opens its device once and the host's parser.
\<close>

theorem gamma_mode_succeeds_when_vendor_returns_zero_witness:
  "fst (bits_init vendor_opening_once (PyTuple []) []) = Some (PyInt 1) \<and>
   PyArg_ParseTuple_i python_host (PyTuple [PyInt 0x00008000]) = Some bitsGAMMACORRECT \<and>
   bitsSetVideoMode vendor_opening_once (snd (bits_init vendor_opening_once (PyTuple []) []))
     bitsGAMMACORRECT = 0 \<and>
   bits_setVideoMode python_host vendor_opening_once (PyTuple [PyInt 0x00008000])
     (snd (bits_init vendor_opening_once (PyTuple []) []))
     = (Some (PyInt 1), [Call_bitsInit '''', Call_bitsSetVideoMode 0x00008000])"
proof -
  have i: "fst (bits_init vendor_opening_once (PyTuple []) []) = Some (PyInt 1)"
    by (simp add: bits_init_eq vendor_opening_once_def)
  have p: "PyArg_ParseTuple_i python_host (PyTuple [PyInt 0x00008000]) = Some bitsGAMMACORRECT"
    by (simp add: python_host_def bitsGAMMACORRECT_def)
  have z: "bitsSetVideoMode vendor_opening_once
             (snd (bits_init vendor_opening_once (PyTuple []) [])) bitsGAMMACORRECT = 0"
    by (simp add: vendor_opening_once_def)
  show ?thesis
    using i p z gamma_mode_succeeds_when_vendor_returns_zero [OF i refl p z]
    by simp
qed

section \<open>The POSIX functions\<close>

lemma set_self_policy_priority_eq:
  "set_self_policy_priority X policy priority tr =
     (sched_setscheduler X tr 0 policy \<lparr>sched_priority = priority\<rparr>,
      tr @ [Call_sched_setscheduler 0 policy \<lparr>sched_priority = priority\<rparr>])"
  by (simp add: set_self_policy_priority_def Let_def)

text \<open>
  Claim C4. For every policy and priority, \<open>set_self_policy_priority\<close> makes one
  call of \<open>sched_setscheduler\<close>: for pid 0, with the given policy and a parameter
  record whose \<open>sched_priority\<close> is the given priority. It returns the status of
  that call as it is: -1 when the OS answers -1, 0 when the OS answers 0.
\<close>

theorem set_self_policy_priority_returns_status_verbatim:
  "set_self_policy_priority X policy priority tr =
     (sched_setscheduler X tr 0 policy \<lparr>sched_priority = priority\<rparr>,
      tr @ [Call_sched_setscheduler 0 policy \<lparr>sched_priority = priority\<rparr>]) \<and>
   (sched_setscheduler X tr 0 policy \<lparr>sched_priority = priority\<rparr> = - 1 \<longrightarrow>
      fst (set_self_policy_priority X policy priority tr) = - 1) \<and>
   (sched_setscheduler X tr 0 policy \<lparr>sched_priority = priority\<rparr> = 0 \<longrightarrow>
      fst (set_self_policy_priority X policy priority tr) = 0)"
  by (simp add: set_self_policy_priority_eq)

text \<open>
  The theorem of C4 with an OS that rejects the request (\<open>SCHED_FIFO\<close> at
  priority 99) and with one that accepts it.
\<close>

theorem set_self_policy_priority_returns_status_verbatim_witness:
  "set_self_policy_priority (posix_replying (- 1) 0) 1 99 [] =
     (- 1, [Call_sched_setscheduler 0 1 \<lparr>sched_priority = 99\<rparr>]) \<and>
   set_self_policy_priority (posix_replying 0 0) 0 0 [Call_mlockall 3] =
     (0, [Call_mlockall 3, Call_sched_setscheduler 0 0 \<lparr>sched_priority = 0\<rparr>])"
  using set_self_policy_priority_returns_status_verbatim [of "posix_replying (- 1) 0" 1 99 "[]"]
    set_self_policy_priority_returns_status_verbatim [of "posix_replying 0 0" 0 0 "[Call_mlockall 3]"]
  by (simp add: posix_replying_def)

text \<open>
  Claim C5. Where \<open>MCL_CURRENT\<close> or \<open>MCL_FUTURE\<close> is not defined,
  \<open>stop_memory_paging\<close> returns 0 and makes no call, whatever calls came before.
  Where both are defined it makes one call, \<open>mlockall(MCL_CURRENT | MCL_FUTURE)\<close>,
  and returns the status of that call.
\<close>

theorem stop_memory_paging_by_platform:
  "(MCL_CURRENT M = None \<or> MCL_FUTURE M = None \<longrightarrow> stop_memory_paging M X tr = (0, tr)) \<and>
   (\<forall>cur fut. MCL_CURRENT M = Some cur \<and> MCL_FUTURE M = Some fut \<longrightarrow>
      stop_memory_paging M X tr =
        (mlockall X tr (cur OR fut), tr @ [Call_mlockall (cur OR fut)]))"
  by (auto simp add: stop_memory_paging_def split: option.splits)

text \<open>
  The theorem of C5 on the platform without the macros, and on Linux with an OS
  that refuses to lock and with one that locks.
\<close>

theorem stop_memory_paging_by_platform_witness:
  "(MCL_CURRENT mman_without = None \<or> MCL_FUTURE mman_without = None) \<and>
   stop_memory_paging mman_without (posix_replying 0 (- 1)) [] = (0, []) \<and>
   MCL_CURRENT mman_linux = Some 1 \<and> MCL_FUTURE mman_linux = Some 2 \<and>
   stop_memory_paging mman_linux (posix_replying 0 (- 1)) [] = (- 1, [Call_mlockall 3]) \<and>
   stop_memory_paging mman_linux (posix_replying 0 0) [] = (0, [Call_mlockall 3])"
  using stop_memory_paging_by_platform [of mman_without "posix_replying 0 (- 1)" "[]"]
    stop_memory_paging_by_platform [of mman_linux "posix_replying 0 (- 1)" "[]"]
    stop_memory_paging_by_platform [of mman_linux "posix_replying 0 0" "[]"]
  by (simp add: mman_without_def mman_linux_def posix_replying_def)

section \<open>The refresh rate\<close>

lemma win32_getRefresh_eq:
  "win32_getRefresh W beyond tr =
     (if fst (EnumDisplaySettings W tr None ENUM_CURRENT_SETTINGS 0) \<noteq> 0
      then Some (PyFloat (word_cat beyond
             (dmDisplayFrequency (snd (EnumDisplaySettings W tr None ENUM_CURRENT_SETTINGS 0)))))
      else None,
      tr @ [Call_EnumDisplaySettings None ENUM_CURRENT_SETTINGS 0])"
  by (simp add: win32_getRefresh_def Let_def Py_BuildValue_f_def split: prod.splits)

text \<open>
  The error half of claim C7 holds: \<open>win32_getRefresh\<close> returns \<open>NULL\<close> exactly
  when \<open>EnumDisplaySettings\<close> reports 0.
\<close>

lemma getRefresh_NULL_iff_enumeration_fails:
  "fst (win32_getRefresh W beyond tr) = None \<longleftrightarrow>
     fst (EnumDisplaySettings W tr None ENUM_CURRENT_SETTINGS 0) = 0"
  by (simp add: win32_getRefresh_eq)

lemma bit_length_60: "bit_length 60 = 6"
  by (simp add: bit_length.simps)

lemma binary64_of_60: "binary64_of_nat 60 = 0x404E000000000000"
  by (simp add: binary64_of_nat_def bit_length_60)

lemma fetched_double_bit2:
  "bit (word_cat (beyond :: 32 word) (f :: DWORD) :: 64 word) 2 \<longleftrightarrow> bit f 2"
  by (simp add: bit_word_cat_iff)

lemma bit2_of_60: "bit (60 :: DWORD) 2"
  by simp

lemma bit2_of_double_60: "\<not> bit (0x404E000000000000 :: 64 word) 2"
  by simp

lemma fetched_double_not_60:
  "(word_cat (beyond :: 32 word) (60 :: DWORD) :: 64 word) \<noteq> 0x404E000000000000"
proof
  assume "(word_cat beyond (60 :: DWORD) :: 64 word) = 0x404E000000000000"
  then have "bit (word_cat beyond (60 :: DWORD) :: 64 word) 2 \<longleftrightarrow>
             bit (0x404E000000000000 :: 64 word) 2"
    by (rule arg_cong)
  then have "bit (60 :: DWORD) 2 \<longleftrightarrow> bit (0x404E000000000000 :: 64 word) 2"
    by (simp only: fetched_double_bit2)
  with bit2_of_60 bit2_of_double_60 show False by blast
qed

text \<open>
  Claim C7, the value half, at a display of 60 Hz. \<open>EnumDisplaySettings\<close> succeeds
  and fills in \<open>dmDisplayFrequency = 60\<close>; the claim expects the float 60.0, whose
  encoding is \<open>0x404E000000000000\<close>. \<open>win32_getRefresh\<close> returns a float object
  whose low 32 bits are the integer 60, whatever the high 32 bits are: it is not
  the float 60.0.
\<close>

theorem getRefresh_at_60Hz_is_not_the_float_60:
  "win32_getRefresh
     (windows_replying 1 1 (1, \<lparr>dmDriverExtra = 0, dmDisplayFrequency = 60\<rparr>)) beyond [] =
     (Some (PyFloat (word_cat beyond (60 :: DWORD))),
      [Call_EnumDisplaySettings None ENUM_CURRENT_SETTINGS 0]) \<and>
   binary64_of_nat 60 = 0x404E000000000000 \<and>
   PyFloat (word_cat beyond (60 :: DWORD)) \<noteq> PyFloat (binary64_of_nat 60)"
proof -
  have r: "win32_getRefresh
     (windows_replying 1 1 (1, \<lparr>dmDriverExtra = 0, dmDisplayFrequency = 60\<rparr>)) beyond [] =
     (Some (PyFloat (word_cat beyond (60 :: DWORD))),
      [Call_EnumDisplaySettings None ENUM_CURRENT_SETTINGS 0])"
    by (simp add: win32_getRefresh_eq windows_replying_def)
  have n: "PyFloat (word_cat beyond (60 :: DWORD)) \<noteq> PyFloat (binary64_of_nat 60)"
    using fetched_double_not_60 [of beyond] by (simp add: binary64_of_60)
  from r binary64_of_60 n show ?thesis by blast
qed

section \<open>Sequences of calls\<close>

lemma run_append:
  "run E (xs @ ys) tr =
     (fst (run E xs tr) @ fst (run E ys (snd (run E xs tr))),
      snd (run E ys (snd (run E xs tr))))"
  by (induction xs arbitrary: tr) (simp_all add: split_beta Let_def)

lemma run_two_inits:
  "run E [Op_init a, Op_init b] tr =
     ([Returned_object (if sint (bitsInit (vendor E) tr '''') < 0 then None else Some (PyInt 1)),
       Returned_object (if sint (bitsInit (vendor E) (tr @ [Call_bitsInit '''']) '''') < 0
                        then None else Some (PyInt 1))],
      tr @ [Call_bitsInit '''', Call_bitsInit ''''])"
  by (simp add: bits_init_eq)

lemma call_extends_trace: "take (length tr) (snd (call E op tr)) = tr"
proof (cases op)
  case (Op_setVideoMode args)
  then show ?thesis
    by (cases "PyArg_ParseTuple_i (python E) args")
       (simp_all add: bits_setVideoMode_parsed bits_setVideoMode_unparsed)
next
  case Op_stop_memory_paging
  then show ?thesis
    by (simp add: stop_memory_paging_def split: option.splits)
qed (simp_all add: bits_init_eq setProcessPriority_eq setThreadPriority_eq
       win32_getRefresh_eq set_self_policy_priority_eq)

lemma call_forgets:
  assumes "same_answers E tr E' tr'"
  shows "fst (call E op tr) = fst (call E' op tr') \<and>
         drop (length tr) (snd (call E op tr)) = drop (length tr') (snd (call E' op tr'))"
proof (cases op)
  case (Op_init args)
  then show ?thesis using assms by (simp add: same_answers_def bits_init_eq)
next
  case (Op_setVideoMode args)
  then show ?thesis using assms
    by (cases "PyArg_ParseTuple_i (python E') args")
       (simp_all add: same_answers_def bits_setVideoMode_parsed bits_setVideoMode_unparsed)
next
  case (Op_setProcessPriority args)
  then show ?thesis using assms by (simp add: same_answers_def setProcessPriority_eq)
next
  case (Op_setThreadPriority args)
  then show ?thesis using assms by (simp add: same_answers_def setThreadPriority_eq)
next
  case (Op_getRefresh beyond)
  then show ?thesis using assms by (simp add: same_answers_def win32_getRefresh_eq)
next
  case (Op_set_self_policy_priority policy priority)
  then show ?thesis using assms by (simp add: same_answers_def set_self_policy_priority_eq)
next
  case Op_stop_memory_paging
  then show ?thesis using assms
    by (simp add: same_answers_def stop_memory_paging_def split: option.splits)
qed

lemma quiet_same:
  "same_answers quiet_outside [] quiet_outside [Call_mlockall 3]"
  by (simp add: same_answers_def quiet_outside_def vendor_opening_once_def
        windows_replying_def posix_replying_def)

lemma quiet_run:
  "run quiet_outside [Op_stop_memory_paging] [] = ([Returned_int 0], [Call_mlockall 3])"
  by (simp add: quiet_outside_def stop_memory_paging_def mman_linux_def posix_replying_def)

text \<open>
  Claim C8. The layer keeps nothing from one call to the next. A call leaves the
  record of the earlier outside calls as it was, and what it returns and which
  outside call it adds depend on what came before only through the answers of the
  outside: from two histories after which the outside answers alike, the same
  operation returns the same and adds the same call. In particular, after any
  sequence \<open>ops\<close> of operations, two \<open>init\<close> calls in a row make two \<open>bitsInit("")\<close>
  calls, and the second returns \<open>NULL\<close> or 1 by the sign of the status the vendor
  gives to that second call.
\<close>

theorem no_state_kept_second_init_forwarded:
  "take (length tr0) (snd (call E op tr0)) = tr0 \<and>
   (same_answers E tr E' tr' \<longrightarrow>
      fst (call E op tr) = fst (call E' op tr') \<and>
      drop (length tr) (snd (call E op tr)) = drop (length tr') (snd (call E' op tr'))) \<and>
   run E (ops @ [Op_init a, Op_init b]) tr0 =
     (fst (run E ops tr0) @
        [Returned_object
           (if sint (bitsInit (vendor E) (snd (run E ops tr0)) '''') < 0
            then None else Some (PyInt 1)),
         Returned_object
           (if sint (bitsInit (vendor E) (snd (run E ops tr0) @ [Call_bitsInit '''']) '''') < 0
            then None else Some (PyInt 1))],
      snd (run E ops tr0) @ [Call_bitsInit '''', Call_bitsInit ''''])"
proof (intro conjI impI)
  show "take (length tr0) (snd (call E op tr0)) = tr0"
    by (rule call_extends_trace)
next
  assume s: "same_answers E tr E' tr'"
  from call_forgets [OF s, of op]
  show "fst (call E op tr) = fst (call E' op tr')"
    and "drop (length tr) (snd (call E op tr)) = drop (length tr') (snd (call E' op tr'))"
    by simp_all
next
  show "run E (ops @ [Op_init a, Op_init b]) tr0 =
     (fst (run E ops tr0) @
        [Returned_object
           (if sint (bitsInit (vendor E) (snd (run E ops tr0)) '''') < 0
            then None else Some (PyInt 1)),
         Returned_object
           (if sint (bitsInit (vendor E) (snd (run E ops tr0) @ [Call_bitsInit '''']) '''') < 0
            then None else Some (PyInt 1))],
      snd (run E ops tr0) @ [Call_bitsInit '''', Call_bitsInit ''''])"
    by (simp only: run_append run_two_inits fst_conv snd_conv)
qed

text \<open>
  The theorem of C8 with the vendor that opens its device once: before and after
  a \<open>stop_memory_paging\<close> the outside answers alike and \<open>init\<close> returns 1 both
  times; of two \<open>init\<close> calls in a row the first returns 1 and the second, which
  the vendor answers with \<open>E_ALREADYOPEN\<close>, returns \<open>NULL\<close>.
\<close>

theorem no_state_kept_second_init_forwarded_witness:
  "same_answers quiet_outside [] quiet_outside [Call_mlockall 3] \<and>
   fst (call quiet_outside (Op_init (PyTuple [])) []) =
     fst (call quiet_outside (Op_init (PyTuple [])) [Call_mlockall 3]) \<and>
   drop (length ([] :: trace)) (snd (call quiet_outside (Op_init (PyTuple [])) [])) =
     drop (length [Call_mlockall 3])
       (snd (call quiet_outside (Op_init (PyTuple [])) [Call_mlockall 3])) \<and>
   call quiet_outside (Op_init (PyTuple [])) [Call_mlockall 3] =
     (Returned_object (Some (PyInt 1)), [Call_mlockall 3, Call_bitsInit '''']) \<and>
   run quiet_outside ([Op_stop_memory_paging] @ [Op_init (PyTuple []), Op_init (PyTuple [])]) [] =
     ([Returned_int 0, Returned_object (Some (PyInt 1)), Returned_object None],
      [Call_mlockall 3, Call_bitsInit '''', Call_bitsInit ''''])"
proof -
  note t = no_state_kept_second_init_forwarded
    [of "[]" quiet_outside "Op_init (PyTuple [])" "[]" quiet_outside "[Call_mlockall 3]"
        "[Op_stop_memory_paging]" "PyTuple []" "PyTuple []"]
  have v: "bitsInit (vendor quiet_outside) [Call_mlockall 3] '''' = 0"
    "bitsInit (vendor quiet_outside) ([Call_mlockall 3] @ [Call_bitsInit '''']) '''' = E_ALREADYOPEN"
    by (simp_all add: quiet_outside_def vendor_opening_once_def)
  have c: "call quiet_outside (Op_init (PyTuple [])) [Call_mlockall 3] =
             (Returned_object (Some (PyInt 1)), [Call_mlockall 3, Call_bitsInit ''''])"
    by (simp add: bits_init_eq quiet_outside_def vendor_opening_once_def)
  have r: "run quiet_outside
             ([Op_stop_memory_paging] @ [Op_init (PyTuple []), Op_init (PyTuple [])]) [] =
           ([Returned_int 0, Returned_object (Some (PyInt 1)), Returned_object None],
            [Call_mlockall 3, Call_bitsInit '''', Call_bitsInit ''''])"
    unfolding conjunct2 [OF conjunct2 [OF t]] quiet_run fst_conv snd_conv v
    by (simp add: E_ALREADYOPEN_def)
  from conjunct1 [OF conjunct2 [OF t], THEN mp, OF quiet_same] quiet_same c r show ?thesis
    by blast
qed

end
